theory Spec2Isabelle
  imports Complex_Main "HOL-Library.Char_ord" "HOL-Library.List_Lexorder"
    "HOL-Library.Product_Lexorder" "HOL-Library.Multiset"
begin

section \<open>The election map of myviz: data preparation and selection callback\<close>

text \<open>
  This theory embeds \<^verbatim>\<open>styled_election_map\<close> of \<^verbatim>\<open>src/myviz/bokeh_maps.py\<close>: the
  pandas pipeline of lines 28-78 (filter on the year, group-by sum, pivot, left merge with
  the geometry, percentages, sanitisation) and the JavaScript callback of lines 207-266.

  Conventions of the model.
  \<^item> A float64 cell is a \<open>cell\<close>: a finite value carried as an exact rational, or one
    of NaN, +inf, -inf. Division by zero, NaN propagation and pandas' NaN-skipping sums
    are written out; the rounding error of binary floating point on finite values is not
    modelled. Vote counts are integers without bound: the wrap-around of an int64 sum is
    outside the model.
  \<^item> A data frame is a list of rows; a row keeps its candidate columns as an
    association list in column order. Candidate names are taken not to collide with the
    fixed column names (\<^verbatim>\<open>moughataa\<close>, \<^verbatim>\<open>geometry\<close>, \<^verbatim>\<open>total_votes\<close>) nor with the
    derived \<^verbatim>\<open>_pct\<close> names of other candidates, and the geometry file carries no
    column but the region name and the shape.
  \<^item> The HTML of the summary panel is kept as its four interpolated fields.
\<close>

subsection \<open>Float cells\<close>

datatype py_error = ValueError | IndexError

datatype cell = Num rat | NaN | PosInf | NegInf

fun is_finite :: "cell \<Rightarrow> bool" where
  "is_finite (Num a) = True"
| "is_finite c = False"

fun cell_add :: "cell \<Rightarrow> cell \<Rightarrow> cell" where
  "cell_add (Num a) (Num b) = Num (a + b)"
| "cell_add NaN c = NaN"
| "cell_add c NaN = NaN"
| "cell_add PosInf NegInf = NaN"
| "cell_add NegInf PosInf = NaN"
| "cell_add PosInf c = PosInf"
| "cell_add c PosInf = PosInf"
| "cell_add NegInf c = NegInf"
| "cell_add c NegInf = NegInf"

fun cell_mul :: "cell \<Rightarrow> cell \<Rightarrow> cell" where
  "cell_mul (Num a) (Num b) = Num (a * b)"
| "cell_mul NaN c = NaN"
| "cell_mul c NaN = NaN"
| "cell_mul PosInf (Num b) = (if b = 0 then NaN else if 0 < b then PosInf else NegInf)"
| "cell_mul NegInf (Num b) = (if b = 0 then NaN else if 0 < b then NegInf else PosInf)"
| "cell_mul (Num a) PosInf = (if a = 0 then NaN else if 0 < a then PosInf else NegInf)"
| "cell_mul (Num a) NegInf = (if a = 0 then NaN else if 0 < a then NegInf else PosInf)"
| "cell_mul PosInf PosInf = PosInf"
| "cell_mul NegInf NegInf = PosInf"
| "cell_mul PosInf NegInf = NegInf"
| "cell_mul NegInf PosInf = NegInf"

text \<open>numpy's true division: no exception, \<open>x / 0\<close> is an infinity and \<open>0 / 0\<close> is NaN.\<close>

fun cell_div :: "cell \<Rightarrow> cell \<Rightarrow> cell" where
  "cell_div (Num a) (Num b) =
     (if b \<noteq> 0 then Num (a / b)
      else if a = 0 then NaN else if 0 < a then PosInf else NegInf)"
| "cell_div NaN c = NaN"
| "cell_div c NaN = NaN"
| "cell_div (Num a) c = Num 0"
| "cell_div PosInf (Num b) = (if 0 \<le> b then PosInf else NegInf)"
| "cell_div NegInf (Num b) = (if 0 \<le> b then NegInf else PosInf)"
| "cell_div PosInf PosInf = NaN"
| "cell_div PosInf NegInf = NaN"
| "cell_div NegInf PosInf = NaN"
| "cell_div NegInf NegInf = NaN"

text \<open>\<open>>\<close> on floats: false as soon as one side is NaN.\<close>

fun cell_gt :: "cell \<Rightarrow> cell \<Rightarrow> bool" where
  "cell_gt (Num a) (Num b) = (b < a)"
| "cell_gt NaN c = False"
| "cell_gt c NaN = False"
| "cell_gt PosInf PosInf = False"
| "cell_gt PosInf c = True"
| "cell_gt c PosInf = False"
| "cell_gt NegInf c = False"
| "cell_gt c NegInf = True"

text \<open>Rounding to the nearest integer, a tie going to the even neighbour (\<^verbatim>\<open>rint\<close>).\<close>

definition round_half_even :: "rat \<Rightarrow> int" where
  "round_half_even x =
     (let f = \<lfloor>x\<rfloor>; d = x - of_int f
      in if d < 1 / 2 then f else if 1 / 2 < d then f + 1
         else if even f then f else f + 1)"

text \<open>\<^verbatim>\<open>Series.round(d)\<close>: scale by \<open>10 ^ d\<close>, round to the nearest integer, scale back.\<close>

definition np_round :: "nat \<Rightarrow> rat \<Rightarrow> rat" where
  "np_round d x = of_int (round_half_even (x * 10 ^ d)) / 10 ^ d"

fun cell_round :: "nat \<Rightarrow> cell \<Rightarrow> cell" where
  "cell_round d (Num a) = Num (np_round d a)"
| "cell_round d c = c"

text \<open>\<^verbatim>\<open>sum()\<close> of pandas skips NaN and starts from 0.\<close>

definition nansum :: "cell list \<Rightarrow> cell" where
  "nansum xs = foldl cell_add (Num 0) (filter (\<lambda>c. c \<noteq> NaN) xs)"

text \<open>Python's built-in \<^verbatim>\<open>sum\<close>: plain addition from 0.\<close>

definition py_sum :: "cell list \<Rightarrow> cell" where
  "py_sum xs = foldl cell_add (Num 0) xs"

text \<open>\<^verbatim>\<open>replace([inf, -inf], 0)\<close> and \<^verbatim>\<open>fillna(0)\<close>, cell by cell.\<close>

fun replace_inf :: "cell \<Rightarrow> cell" where
  "replace_inf PosInf = Num 0"
| "replace_inf NegInf = Num 0"
| "replace_inf c = c"

fun fillna :: "cell \<Rightarrow> cell" where
  "fillna NaN = Num 0"
| "fillna c = c"

subsection \<open>The input tables\<close>

record election_row =
  year :: int
  moughataa :: string
  candidate :: string
  nb_votes :: int

record 'g geo_row =
  ADM2_EN :: string
  geometry :: 'g

subsection \<open>Filter, group-by and pivot (lines 31-45)\<close>

definition df_elections_2024 :: "election_row list \<Rightarrow> election_row list" where
  "df_elections_2024 df_elections = filter (\<lambda>r. year r = 2024) df_elections"

text \<open>
  \<^verbatim>\<open>groupby(["moughataa", "candidate"], as_index=False)["nb_votes"].sum()\<close>: one row
  per key pair that occurs, keys sorted, the votes of the pair summed.
\<close>

definition group_keys :: "election_row list \<Rightarrow> (string \<times> string) list" where
  "group_keys df = sort (remdups (map (\<lambda>r. (moughataa r, candidate r)) df))"

definition df_agg_2024 :: "election_row list \<Rightarrow> ((string \<times> string) \<times> int) list" where
  "df_agg_2024 df =
     map (\<lambda>k. (k, sum_list (map nb_votes (filter (\<lambda>r. (moughataa r, candidate r) = k) df))))
       (group_keys df)"

text \<open>
  \<^verbatim>\<open>pivot(index="moughataa", columns="candidate", values="nb_votes")\<close>: the index and
  the columns are the sorted distinct values; a pair with no row is NaN. (pandas raises
  on a duplicated pair; the keys of the aggregate are distinct, see \<open>distinct_group_keys\<close>.)
\<close>

definition pivot_index :: "((string \<times> string) \<times> int) list \<Rightarrow> string list" where
  "pivot_index agg = sort (remdups (map (\<lambda>(k, v). fst k) agg))"

definition pivot_columns :: "((string \<times> string) \<times> int) list \<Rightarrow> string list" where
  "pivot_columns agg = sort (remdups (map (\<lambda>(k, v). snd k) agg))"

definition pivot_cell :: "((string \<times> string) \<times> int) list \<Rightarrow> string \<Rightarrow> string \<Rightarrow> cell" where
  "pivot_cell agg m c = (case map_of agg (m, c) of None \<Rightarrow> NaN | Some v \<Rightarrow> Num (of_int v))"


record pivot_row =
  p_moughataa :: string
  p_votes :: "(string \<times> cell) list"
  p_total_votes :: cell

text \<open>Lines 38-45: pivot, \<^verbatim>\<open>fillna(0)\<close>, and the row sums over the candidate columns.\<close>

definition candidats :: "election_row list \<Rightarrow> string list" where
  "candidats df_elections = pivot_columns (df_agg_2024 (df_elections_2024 df_elections))"

definition pivot_row_of :: "((string \<times> string) \<times> int) list \<Rightarrow> string \<Rightarrow> pivot_row" where
  "pivot_row_of agg m =
     (let vs = map (\<lambda>c. (c, fillna (pivot_cell agg m c))) (pivot_columns agg)
      in \<lparr>p_moughataa = m, p_votes = vs, p_total_votes = nansum (map snd vs)\<rparr>)"

definition df_pivot :: "election_row list \<Rightarrow> pivot_row list" where
  "df_pivot df_elections =
     (let agg = df_agg_2024 (df_elections_2024 df_elections)
      in map (pivot_row_of agg) (pivot_index agg))"

subsection \<open>National totals and the leader (lines 48-51)\<close>

text \<open>
  \<^verbatim>\<open>row[c]\<close> in a row whose candidate columns are \<open>vs\<close>. The pipeline reads a row
  only at the names in \<open>candidats\<close>, which every row carries (\<open>row_get_map\<close>).
\<close>

definition row_get :: "(string \<times> cell) list \<Rightarrow> string \<Rightarrow> cell" where
  "row_get vs c = (case map_of vs c of Some v \<Rightarrow> v | None \<Rightarrow> NaN)"

definition totaux_nationaux :: "election_row list \<Rightarrow> (string \<times> cell) list" where
  "totaux_nationaux df_elections =
     map (\<lambda>c. (c, nansum (map (\<lambda>r. row_get (p_votes r) c) (df_pivot df_elections))))
       (candidats df_elections)"

text \<open>
  Python's \<^verbatim>\<open>max(d, key=d.get)\<close> walks the keys in insertion order and replaces the
  best so far only by a key whose value is strictly greater; on an empty dict it raises
  \<^verbatim>\<open>ValueError\<close>. The dict is walked here as its list of items.
\<close>

fun py_max_loop :: "('a \<Rightarrow> cell) \<Rightarrow> 'a \<Rightarrow> 'a list \<Rightarrow> 'a" where
  "py_max_loop key best [] = best"
| "py_max_loop key best (x # xs) =
     py_max_loop key (if cell_gt (key x) (key best) then x else best) xs"

definition py_max :: "('a \<Rightarrow> cell) \<Rightarrow> 'a list \<Rightarrow> py_error + 'a" where
  "py_max key xs = (case xs of [] \<Rightarrow> Inl ValueError | x # ys \<Rightarrow> Inr (py_max_loop key x ys))"

definition gagnant_national :: "election_row list \<Rightarrow> py_error + string" where
  "gagnant_national df_elections =
     (case py_max snd (totaux_nationaux df_elections) of
        Inl e \<Rightarrow> Inl e
      | Inr kv \<Rightarrow> Inr (fst kv))"

subsection \<open>Left merge with the geometry (lines 29, 54-57)\<close>

record 'g merged_row =
  m_geometry :: 'g
  m_moughataa :: string
  m_votes :: "(string \<times> cell) list"
  m_total_votes :: cell

text \<open>
  \<^verbatim>\<open>gdf_moughataas.merge(df_pivot, on="moughataa", how="left")\<close>: the rows of the
  geometry in their order, each paired with every row of the pivot of the same name, or
  with NaN in every column of the pivot when there is none. \<open>to_crs\<close> is the
  reprojection of line 57; it touches the geometry only.
\<close>

definition unmatched_row :: "('g \<Rightarrow> 'g) \<Rightarrow> string list \<Rightarrow> 'g geo_row \<Rightarrow> 'g merged_row" where
  "unmatched_row to_crs cands g =
     \<lparr>m_geometry = to_crs (geometry g), m_moughataa = ADM2_EN g,
      m_votes = map (\<lambda>c. (c, NaN)) cands, m_total_votes = NaN\<rparr>"

definition matched_row :: "('g \<Rightarrow> 'g) \<Rightarrow> 'g geo_row \<Rightarrow> pivot_row \<Rightarrow> 'g merged_row" where
  "matched_row to_crs g p =
     \<lparr>m_geometry = to_crs (geometry g), m_moughataa = ADM2_EN g,
      m_votes = p_votes p, m_total_votes = p_total_votes p\<rparr>"

definition merge_left :: "('g \<Rightarrow> 'g) \<Rightarrow> string list \<Rightarrow> pivot_row list \<Rightarrow> 'g geo_row \<Rightarrow> 'g merged_row list" where
  "merge_left to_crs cands df g =
     (case filter (\<lambda>p. p_moughataa p = ADM2_EN g) df of
        [] \<Rightarrow> [unmatched_row to_crs cands g]
      | ps \<Rightarrow> map (matched_row to_crs g) ps)"

definition gdf_merged :: "('g \<Rightarrow> 'g) \<Rightarrow> 'g geo_row list \<Rightarrow> election_row list \<Rightarrow> 'g merged_row list" where
  "gdf_merged to_crs gdf_moughataas df_elections =
     concat (map (merge_left to_crs (candidats df_elections) (df_pivot df_elections))
               gdf_moughataas)"

subsection \<open>Percentages and sanitisation (lines 60-74)\<close>

record 'g clean_row =
  c_geometry :: 'g
  c_moughataa :: string
  c_votes :: "(string \<times> cell) list"
  c_total_votes :: cell
  c_pct :: "(string \<times> cell) list"

text \<open>Line 65: \<^verbatim>\<open>(gdf_clean[candidat] / gdf_clean['total_votes'] * 100).round(2)\<close>.\<close>

definition pct_of :: "cell \<Rightarrow> cell \<Rightarrow> cell" where
  "pct_of v t = cell_round 2 (cell_mul (cell_div v t) (Num 100))"

text \<open>Lines 68-74 on one cell; \<^verbatim>\<open>astype(float)\<close> leaves a float cell as it is.\<close>

definition clean_cell :: "cell \<Rightarrow> cell" where
  "clean_cell c = fillna (replace_inf c)"

definition clean_row_of :: "string list \<Rightarrow> 'g merged_row \<Rightarrow> 'g clean_row" where
  "clean_row_of cands r =
     \<lparr>c_geometry = m_geometry r, c_moughataa = m_moughataa r,
      c_votes = map (\<lambda>c. (c, clean_cell (row_get (m_votes r) c))) cands,
      c_total_votes = clean_cell (m_total_votes r),
      c_pct = map (\<lambda>c. (c, clean_cell (pct_of (row_get (m_votes r) c) (m_total_votes r)))) cands\<rparr>"

definition gdf_clean :: "('g \<Rightarrow> 'g) \<Rightarrow> 'g geo_row list \<Rightarrow> election_row list \<Rightarrow> 'g clean_row list" where
  "gdf_clean to_crs gdf_moughataas df_elections =
     map (clean_row_of (candidats df_elections)) (gdf_merged to_crs gdf_moughataas df_elections)"


subsection \<open>The preparation stage as a whole (lines 28-78)\<close>

record 'g prepared =
  prep_candidats :: "string list"
  prep_totaux :: "(string \<times> cell) list"
  prep_gagnant :: string
  prep_table :: "'g clean_row list"

text \<open>
  The statements run in the source's order, so the \<^verbatim>\<open>ValueError\<close> of line 51 ends
  the function before the merge.
\<close>

definition prepare :: "('g \<Rightarrow> 'g) \<Rightarrow> 'g geo_row list \<Rightarrow> election_row list \<Rightarrow> py_error + 'g prepared" where
  "prepare to_crs gdf_moughataas df_elections =
     (case gagnant_national df_elections of
        Inl e \<Rightarrow> Inl e
      | Inr w \<Rightarrow> Inr \<lparr>prep_candidats = candidats df_elections,
                      prep_totaux = totaux_nationaux df_elections,
                      prep_gagnant = w,
                      prep_table = gdf_clean to_crs gdf_moughataas df_elections\<rparr>)"

subsection \<open>The rendering stage: the initial view (lines 90-204)\<close>








subsection \<open>The selection callback (lines 207-266)\<close>









subsection \<open>The scenario of the specification\<close>

text \<open>
  Regions A and B, candidates X and Y, votes A: X 70, Y 30 and B: X 0, Y 0, with a row of
  another year that the filter drops. The geometry is a number tagging the region.
\<close>

definition scenario_geo :: "nat geo_row list" where
  "scenario_geo = [\<lparr>ADM2_EN = ''A'', geometry = 1\<rparr>, \<lparr>ADM2_EN = ''B'', geometry = 2\<rparr>]"

definition scenario_results :: "election_row list" where
  "scenario_results =
     [\<lparr>year = 2024, moughataa = ''A'', candidate = ''X'', nb_votes = 70\<rparr>,
      \<lparr>year = 2024, moughataa = ''B'', candidate = ''Y'', nb_votes = 0\<rparr>,
      \<lparr>year = 2024, moughataa = ''A'', candidate = ''Y'', nb_votes = 30\<rparr>,
      \<lparr>year = 2019, moughataa = ''A'', candidate = ''Z'', nb_votes = 12\<rparr>,
      \<lparr>year = 2024, moughataa = ''B'', candidate = ''X'', nb_votes = 0\<rparr>]"

definition scenario_table :: "nat clean_row list" where
  "scenario_table =
     [\<lparr>c_geometry = 1, c_moughataa = ''A'',
       c_votes = [(''X'', Num 70), (''Y'', Num 30)], c_total_votes = Num 100,
       c_pct = [(''X'', Num 70), (''Y'', Num 30)]\<rparr>,
      \<lparr>c_geometry = 2, c_moughataa = ''B'',
       c_votes = [(''X'', Num 0), (''Y'', Num 0)], c_total_votes = Num 0,
       c_pct = [(''X'', Num 0), (''Y'', Num 0)]\<rparr>]"

definition scenario_prepared :: "nat prepared" where
  "scenario_prepared =
     \<lparr>prep_candidats = [''X'', ''Y''],
      prep_totaux = [(''X'', Num 70), (''Y'', Num 30)],
      prep_gagnant = ''X'',
      prep_table = scenario_table\<rparr>"

text \<open>Results that hold no row of 2024.\<close>

definition other_year_results :: "election_row list" where
  "other_year_results =
     [\<lparr>year = 2019, moughataa = ''A'', candidate = ''X'', nb_votes = 70\<rparr>,
      \<lparr>year = 2019, moughataa = ''B'', candidate = ''Y'', nb_votes = 30\<rparr>]"


















text \<open>The results of the scenario, the rows in another order.\<close>

definition scenario_results_reordered :: "election_row list" where
  "scenario_results_reordered =
     [\<lparr>year = 2024, moughataa = ''B'', candidate = ''X'', nb_votes = 0\<rparr>,
      \<lparr>year = 2019, moughataa = ''A'', candidate = ''Z'', nb_votes = 12\<rparr>,
      \<lparr>year = 2024, moughataa = ''A'', candidate = ''Y'', nb_votes = 30\<rparr>,
      \<lparr>year = 2024, moughataa = ''A'', candidate = ''X'', nb_votes = 70\<rparr>,
      \<lparr>year = 2024, moughataa = ''B'', candidate = ''Y'', nb_votes = 0\<rparr>]"

section \<open>Properties\<close>

subsection \<open>Basic facts about cells\<close>

lemma is_finite_clean_cell: "is_finite (clean_cell c)"
  by (cases c) (simp_all add: clean_cell_def)

lemma prepare_Inr_table:
  "prepare to_crs gdf df = Inr P \<Longrightarrow> prep_table P = gdf_clean to_crs gdf df"
  by (auto simp: prepare_def split: sum.splits)


lemma prepare_scenario: "prepare id scenario_geo scenario_results = Inr scenario_prepared"
  by code_simp

subsection \<open>No NaN and no infinity after preparation\<close>

text \<open>
  C10. After preparation, every cell of the prepared table outside the geometry and the
  region name (the candidate counts, the total votes and the percentages) is a finite
  float: no NaN, no infinity, no missing value.
\<close>

theorem prepared_cells_finite:
  assumes "prepare to_crs gdf df = Inr P" and "r \<in> set (prep_table P)"
  shows "is_finite (c_total_votes r)
       \<and> (\<forall>v \<in> snd ` set (c_votes r). is_finite v)
       \<and> (\<forall>v \<in> snd ` set (c_pct r). is_finite v)"
proof -
  from assms have "r \<in> set (gdf_clean to_crs gdf df)"
    by (simp add: prepare_Inr_table)
  then obtain m where "r = clean_row_of (candidats df) m"
    by (auto simp: gdf_clean_def)
  then show ?thesis
    by (auto simp: clean_row_of_def is_finite_clean_cell)
qed

theorem prepared_cells_finite_witness:
  "prepare id scenario_geo scenario_results = Inr scenario_prepared
   \<and> last scenario_table \<in> set (prep_table scenario_prepared)
   \<and> is_finite (c_total_votes (last scenario_table))
   \<and> list_all is_finite (map snd (c_votes (last scenario_table)))
   \<and> list_all is_finite (map snd (c_pct (last scenario_table)))"
proof -
  have h: "last scenario_table \<in> set (prep_table scenario_prepared)"
    by (simp add: scenario_prepared_def scenario_table_def)
  from prepared_cells_finite [OF prepare_scenario h] show ?thesis
    using h by (simp add: prepare_scenario list_all_iff)
qed

subsection \<open>No row of the requested year\<close>

text \<open>
  C3, as the code has it. If no row of the results is of 2024, the filter, the
  aggregation and the pivot give empty tables without any error and there is no
  candidate column; the preparation stage then stops with the \<^verbatim>\<open>ValueError\<close> that
  \<^verbatim>\<open>max\<close> raises on the empty dict of national totals (line 51), whatever the geometry.
\<close>

theorem no_matching_year_raises:
  assumes "\<forall>r \<in> set df. year r \<noteq> 2024"
  shows "df_elections_2024 df = [] \<and> df_pivot df = [] \<and> candidats df = []
       \<and> prepare to_crs gdf df = Inl ValueError"
proof -
  from assms have e: "df_elections_2024 df = []"
    by (simp add: df_elections_2024_def filter_empty_conv)
  have a: "df_agg_2024 [] = []"
    by (simp add: df_agg_2024_def group_keys_def)
  have c: "candidats df = []"
    by (simp add: candidats_def e a pivot_columns_def)
  have p: "df_pivot df = []"
    by (simp add: df_pivot_def e a pivot_index_def)
  have "gagnant_national df = Inl ValueError"
    by (simp add: gagnant_national_def totaux_nationaux_def c py_max_def)
  then show ?thesis
    by (simp add: e c p prepare_def)
qed

theorem no_matching_year_raises_witness:
  "list_all (\<lambda>r. year r \<noteq> 2024) other_year_results
   \<and> df_elections_2024 other_year_results = []
   \<and> prepare id scenario_geo other_year_results = Inl ValueError"
proof -
  have h: "\<forall>r \<in> set other_year_results. year r \<noteq> 2024"
    by (simp add: other_year_results_def)
  from no_matching_year_raises [OF h, of id scenario_geo] show ?thesis
    using h by (simp add: list_all_iff)
qed

text \<open>
  The claim as stated (the stage yields an empty table and raises nothing) fails on
  results of 2019 only: the filtered table is empty and the stage returns an error.
\<close>

theorem no_matching_year_counterexample:
  "df_elections_2024 other_year_results = []
   \<and> prepare id scenario_geo other_year_results = Inl ValueError"
  by code_simp

subsection \<open>The shape of the pivot and of the merge\<close>

lemma distinct_group_keys: "distinct (map fst (df_agg_2024 df))"
  by (simp add: df_agg_2024_def group_keys_def comp_def)


lemma set_pivot_columns: "set (pivot_columns (df_agg_2024 df)) = candidate ` set df"
  by (force simp: pivot_columns_def df_agg_2024_def group_keys_def image_iff)


lemma distinct_pivot_columns: "distinct (pivot_columns agg)"
  by (simp add: pivot_columns_def)

lemma distinct_candidats: "distinct (candidats df)"
  by (simp add: candidats_def distinct_pivot_columns)












subsection \<open>The join is a left join on the region name\<close>



subsection \<open>What a selection changes\<close>






subsection \<open>The leader shown in the summary\<close>







subsection \<open>National totals and the leader\<close>


lemma foldl_cell_add_Num: "foldl cell_add (Num a) (map Num xs) = Num (a + sum_list xs)"
  by (induction xs arbitrary: a) (simp_all add: add.assoc)


lemma py_sum_Num: "py_sum (map Num xs) = Num (sum_list xs)"
  by (simp add: py_sum_def foldl_cell_add_Num)











subsection \<open>Column sums of the prepared table\<close>










subsection \<open>The transition of a selection\<close>








subsection \<open>Percentages of a row\<close>













lemma prepare_succeeds:
  assumes "df_elections_2024 df \<noteq> []"
  shows "\<exists>P. prepare to_crs gdf df = Inr P"
proof -
  from assms have "candidate ` set (df_elections_2024 df) \<noteq> {}"
    by simp
  then have "candidats df \<noteq> []"
    using set_pivot_columns [of "df_elections_2024 df"] by (auto simp: candidats_def)
  then have "totaux_nationaux df \<noteq> []"
    by (simp add: totaux_nationaux_def)
  then show ?thesis
    by (cases "totaux_nationaux df") (simp_all add: prepare_def gagnant_national_def py_max_def)
qed






subsection \<open>The preparation does not depend on the order of aggregation\<close>

lemma sort_remdups_cong:
  fixes xs ys :: "'a::linorder list"
  assumes "set xs = set ys"
  shows "sort (remdups xs) = sort (remdups ys)"
  by (rule sorted_distinct_set_unique) (simp_all add: assms)

lemma group_keys_mset:
  assumes "mset df = mset df'"
  shows "group_keys df = group_keys df'"
proof -
  from assms have "set df = set df'"
    by (rule mset_eq_setD)
  then show ?thesis
    unfolding group_keys_def by (intro sort_remdups_cong) simp
qed

lemma group_sum_mset:
  assumes "mset df = mset df'"
  shows "sum_list (map nb_votes (filter Q df)) = sum_list (map nb_votes (filter Q df'))"
proof -
  from assms have "mset (map nb_votes (filter Q df)) = mset (map nb_votes (filter Q df'))"
    by simp
  then show ?thesis
    by (metis sum_mset_sum_list)
qed

lemma df_agg_2024_mset:
  assumes "mset df = mset df'"
  shows "df_agg_2024 (df_elections_2024 df) = df_agg_2024 (df_elections_2024 df')"
proof -
  from assms have m: "mset (df_elections_2024 df) = mset (df_elections_2024 df')"
    by (simp add: df_elections_2024_def)
  show ?thesis
    unfolding df_agg_2024_def group_keys_mset [OF m]
    by (rule map_cong [OF refl]) (simp add: group_sum_mset [OF m])
qed

text \<open>
  C8. The preparation is a function of its inputs, and of the results it reads only the
  multiset of rows: the keys of the aggregate are sorted, the votes of a key are summed,
  and the pivot sorts its index and its columns. So the stage returns the same thing
  (the same prepared table, rows, columns, values and order, or the same error) on the
  same geometry and on results that hold the same rows, whatever the order in which
  they are read or aggregated. Two runs on identical inputs are the case where the two
  lists of rows are equal.
\<close>

theorem preparation_order_independent:
  assumes "mset df = mset df'"
  shows "prepare to_crs gdf df = prepare to_crs gdf df'"
proof -
  note agg = df_agg_2024_mset [OF assms]
  have c: "candidats df = candidats df'"
    by (simp add: candidats_def agg)
  have p: "df_pivot df = df_pivot df'"
    by (simp add: df_pivot_def agg)
  have t: "totaux_nationaux df = totaux_nationaux df'"
    by (simp add: totaux_nationaux_def c p)
  have g: "gagnant_national df = gagnant_national df'"
    by (simp add: gagnant_national_def t)
  have m: "gdf_merged to_crs gdf df = gdf_merged to_crs gdf df'"
    by (simp add: gdf_merged_def c p)
  have k: "gdf_clean to_crs gdf df = gdf_clean to_crs gdf df'"
    by (simp add: gdf_clean_def c m)
  show ?thesis
    unfolding prepare_def c t g k ..
qed

theorem preparation_order_independent_witness:
  "mset scenario_results = mset scenario_results_reordered
   \<and> prepare id scenario_geo scenario_results = Inr scenario_prepared
   \<and> prepare id scenario_geo scenario_results_reordered = Inr scenario_prepared"
proof -
  have m: "mset scenario_results = mset scenario_results_reordered"
    by (simp add: scenario_results_def scenario_results_reordered_def)
  from preparation_order_independent [OF m, of id scenario_geo] prepare_scenario m
  show ?thesis by simp
qed

end
